theory Spec2Isabelle
  imports Main
begin

section \<open>The user registration program (main.go)\<close>

text \<open>
  The program has three layers: the storage (\<open>MemoryUserStorage\<close>, behind the interface
  \<open>UserStorer\<close>), the service (\<open>UserServiceImpl\<close>, behind the interface \<open>UserService\<close>)
  and the transport (\<open>JsonOverHTTP\<close>). Each method is translated as a function that takes
  the state it may change and returns its results together with the state afterwards.

  Conventions of the embedding:
  \<^item> a Go \<open>error\<close> result is an \<open>error option\<close>: \<open>None\<close> is \<open>nil\<close>;
  \<^item> a \<open>*User\<close> result is a \<open>User option\<close>: \<open>None\<close> is the nil pointer. A \<open>*User\<close> or
    \<open>*RegisterParams\<close> argument is the value pointed to: every call in the program passes
    the address of a fresh composite literal, and nothing writes through a stored pointer;
  \<^item> the \<open>context.Context\<close> argument is passed along by every layer and read by none, so it
    is left out;
  \<^item> strings are byte strings, as in Go.
\<close>

subsection \<open>Action layer\<close>

text \<open>
  Errors are compared by identity in the source (\<open>err == ErrEmailExists\<close>). The two
  package-level sentinels are constructors of their own; any other error, made by
  \<open>errors.New\<close>, keeps its message and is distinct from both sentinels even when the
  message is the same text.
\<close>

datatype error = ErrUserNotFound | ErrEmailExists | errors_New string

fun Error :: "error \<Rightarrow> string" where
  "Error ErrUserNotFound = ''User not found''"
| "Error ErrEmailExists = ''Email is already in use''"
| "Error (errors_New msg) = msg"

record User =
  Email :: string
  Name :: string

text \<open>The interface \<open>UserStorer\<close> over a state \<open>'s\<close> owned by the implementation.\<close>

record 's UserStorer =
  Get :: "'s \<Rightarrow> string \<Rightarrow> (User option \<times> error option) \<times> 's"
  Save :: "'s \<Rightarrow> User \<Rightarrow> error option \<times> 's"

record MemoryUserStorage =
  store :: "string \<rightharpoonup> User"

definition NewMemoryUserStorage :: MemoryUserStorage where
  "NewMemoryUserStorage = \<lparr>store = Map.empty\<rparr>"

definition MemoryUserStorage_Get ::
  "MemoryUserStorage \<Rightarrow> string \<Rightarrow> (User option \<times> error option) \<times> MemoryUserStorage" where
  "MemoryUserStorage_Get ms email =
     (case store ms email of
        Some u \<Rightarrow> ((Some u, None), ms)
      | None \<Rightarrow> ((None, Some ErrUserNotFound), ms))"

definition MemoryUserStorage_Save ::
  "MemoryUserStorage \<Rightarrow> User \<Rightarrow> error option \<times> MemoryUserStorage" where
  "MemoryUserStorage_Save ms user =
     (None, ms\<lparr>store := (store ms)(Email user \<mapsto> user)\<rparr>)"

text \<open>\<open>*MemoryUserStorage\<close> used where a \<open>UserStorer\<close> is expected.\<close>

definition MemoryUserStorage_UserStorer :: "MemoryUserStorage UserStorer" where
  "MemoryUserStorage_UserStorer =
     \<lparr>Get = MemoryUserStorage_Get, Save = MemoryUserStorage_Save\<rparr>"

subsection \<open>Business logic\<close>

record RegisterParams =
  rp_Email :: string
  rp_Name :: string

definition Validate :: "RegisterParams \<Rightarrow> error option" where
  "Validate rp =
     (if rp_Email rp = '''' then Some (errors_New ''Email cannot be empty'')
      else if CHR ''@'' \<notin> set (rp_Email rp)
        then Some (errors_New ''Email must include an '@' symbol'')
      else if rp_Name rp = '''' then Some (errors_New ''Name cannot be empty'')
      else None)"

text \<open>The interface \<open>UserService\<close>.\<close>

record 's UserService =
  Register :: "'s \<Rightarrow> RegisterParams \<Rightarrow> error option \<times> 's"
  GetByEmail :: "'s \<Rightarrow> string \<Rightarrow> (User option \<times> error option) \<times> 's"

record 's UserServiceImpl =
  userStorage :: "'s UserStorer"

definition NewUserServiceImpl :: "'s UserStorer \<Rightarrow> 's UserServiceImpl" where
  "NewUserServiceImpl us = \<lparr>userStorage = us\<rparr>"

definition UserServiceImpl_Register ::
  "'s UserServiceImpl \<Rightarrow> 's \<Rightarrow> RegisterParams \<Rightarrow> error option \<times> 's" where
  "UserServiceImpl_Register us s params =
     (let ((_, err), s1) = Get (userStorage us) s (rp_Email params) in
      if err = None then (Some ErrEmailExists, s1)
      else if err \<noteq> Some ErrUserNotFound then (err, s1)
      else Save (userStorage us) s1 \<lparr>Email = rp_Email params, Name = rp_Name params\<rparr>)"

definition UserServiceImpl_GetByEmail ::
  "'s UserServiceImpl \<Rightarrow> 's \<Rightarrow> string \<Rightarrow> (User option \<times> error option) \<times> 's" where
  "UserServiceImpl_GetByEmail us s email = Get (userStorage us) s email"

text \<open>\<open>*UserServiceImpl\<close> used where a \<open>UserService\<close> is expected.\<close>

definition UserServiceImpl_UserService :: "'s UserServiceImpl \<Rightarrow> 's UserService" where
  "UserServiceImpl_UserService us =
     \<lparr>Register = UserServiceImpl_Register us, GetByEmail = UserServiceImpl_GetByEmail us\<rparr>"

subsection \<open>Access layer\<close>

text \<open>
  What the handlers read of an \<open>*http.Request\<close>: the method, the body, and the parsed
  form (for a GET request, the query parameters of the URL). \<open>FormValue\<close> is the first
  value of a key, and the empty string when the key is absent.
\<close>

record Request =
  Method :: string
  Body :: string
  Form :: "string \<Rightarrow> string list"

definition FormValue :: "Request \<Rightarrow> string \<Rightarrow> string" where
  "FormValue r key = (case Form r key of [] \<Rightarrow> '''' | v # _ \<Rightarrow> v)"

abbreviation MethodGet :: string where "MethodGet \<equiv> ''GET''"
abbreviation MethodPost :: string where "MethodPost \<equiv> ''POST''"

text \<open>
  What a handler leaves in the \<open>http.ResponseWriter\<close>: the status code and the bytes
  written. \<open>http.Error\<close> sends the code and the message followed by a newline.
\<close>

record Response =
  Code :: nat
  Written :: string

abbreviation StatusOK :: nat where "StatusOK \<equiv> 200"
abbreviation StatusCreated :: nat where "StatusCreated \<equiv> 201"
abbreviation StatusBadRequest :: nat where "StatusBadRequest \<equiv> 400"
abbreviation StatusForbidden :: nat where "StatusForbidden \<equiv> 403"
abbreviation StatusNotFound :: nat where "StatusNotFound \<equiv> 404"
abbreviation StatusMethodNotAllowed :: nat where "StatusMethodNotAllowed \<equiv> 405"
abbreviation StatusInternalServerError :: nat where "StatusInternalServerError \<equiv> 500"

definition http_Error :: "string \<Rightarrow> nat \<Rightarrow> Response" where
  "http_Error msg code = \<lparr>Code = code, Written = msg @ [CHR 0x0A]\<rparr>"

text \<open>
  The package \<open>encoding/json\<close> is not part of the program and is a parameter of the
  handlers: \<open>Decode\<close> reads a request body into a \<open>RegisterParams\<close> or fails, \<open>Encode\<close>
  yields the bytes it writes for a value or fails. The encoder sees a \<open>*User\<close> through
  the struct tags of \<open>User\<close>: the fields in their order, each under its tag; the nil
  pointer is \<open>None\<close>.
\<close>

record encoding_json =
  Decode :: "string \<Rightarrow> error + RegisterParams"
  Encode :: "(string \<times> string) list option \<Rightarrow> error + string"

definition User_tags :: "User \<Rightarrow> (string \<times> string) list" where
  "User_tags u = [(''email'', Email u), (''name'', Name u)]"

record 's JsonOverHTTP =
  usrServ :: "'s UserService"

definition NewJsonOverHTTP :: "'s UserService \<Rightarrow> 's JsonOverHTTP" where
  "NewJsonOverHTTP us = \<lparr>usrServ = us\<rparr>"

definition JsonOverHTTP_Register ::
  "encoding_json \<Rightarrow> 's JsonOverHTTP \<Rightarrow> 's \<Rightarrow> Request \<Rightarrow> Response \<times> 's" where
  "JsonOverHTTP_Register lib j s r =
     (if Method r \<noteq> MethodPost
        then (http_Error ''Register requires a post request'' StatusMethodNotAllowed, s)
      else case Decode lib (Body r) of
        Inl err \<Rightarrow> (http_Error ''Unable to read your request'' StatusBadRequest, s)
      | Inr params \<Rightarrow>
          (case Validate params of
             Some err \<Rightarrow> (http_Error (Error err) StatusBadRequest, s)
           | None \<Rightarrow>
               (let (err, s1) = Register (usrServ j) s params in
                if err = Some ErrEmailExists
                  then (http_Error (Error ErrEmailExists) StatusForbidden, s1)
                else case err of
                  Some e \<Rightarrow> (http_Error (Error e) StatusInternalServerError, s1)
                | None \<Rightarrow> (\<lparr>Code = StatusCreated, Written = ''''\<rparr>, s1))))"

definition validateEmail :: "string \<Rightarrow> error option" where
  "validateEmail email =
     (if email = '''' then Some (errors_New ''Email must not be empty'')
      else if CHR ''@'' \<notin> set email
        then Some (errors_New ''Email must include an '@' symbol'')
      else None)"

definition JsonOverHTTP_GetUser ::
  "encoding_json \<Rightarrow> 's JsonOverHTTP \<Rightarrow> 's \<Rightarrow> Request \<Rightarrow> Response \<times> 's" where
  "JsonOverHTTP_GetUser lib j s r =
     (if Method r \<noteq> MethodGet
        then (http_Error ''GetUser requires a get request'' StatusMethodNotAllowed, s)
      else let email = FormValue r ''email'' in
        case validateEmail email of
          Some err \<Rightarrow> (http_Error (Error err) StatusBadRequest, s)
        | None \<Rightarrow>
            (let ((u, err), s1) = GetByEmail (usrServ j) s email in
             if err = Some ErrUserNotFound
               then (http_Error (Error ErrUserNotFound) StatusNotFound, s1)
             else case err of
               Some e \<Rightarrow> (http_Error (Error e) StatusInternalServerError, s1)
             | None \<Rightarrow>
                 (case Encode lib (map_option User_tags u) of
                    Inl e \<Rightarrow> (http_Error (Error e) StatusInternalServerError, s1)
                  | Inr out \<Rightarrow> (\<lparr>Code = StatusOK, Written = out\<rparr>, s1))))"

subsection \<open>Wiring (func main)\<close>

definition main_usrStor :: MemoryUserStorage where
  "main_usrStor = NewMemoryUserStorage"

definition main_usrServ :: "MemoryUserStorage UserServiceImpl" where
  "main_usrServ = NewUserServiceImpl MemoryUserStorage_UserStorer"

definition main_joh :: "MemoryUserStorage JsonOverHTTP" where
  "main_joh = NewJsonOverHTTP (UserServiceImpl_UserService main_usrServ)"

subsection \<open>Notions used by the properties\<close>

text \<open>
  The algorithm of \<open>register\<close> in the words of the specification: (1) call the storage's
  get with the email; (2) if a user is found, fail with the conflict error; (3) if the
  failure is anything other than not-found, propagate it; (4) otherwise construct a User
  from the params and call the storage's save.
\<close>

definition Register_algorithm ::
  "'s UserStorer \<Rightarrow> 's \<Rightarrow> RegisterParams \<Rightarrow> error option \<times> 's" where
  "Register_algorithm st s params =
     (case Get st s (rp_Email params) of
        ((found, None), s1) \<Rightarrow> (Some ErrEmailExists, s1)
      | ((found, Some failure), s1) \<Rightarrow>
          (case failure of
             ErrUserNotFound \<Rightarrow>
               Save st s1 \<lparr>Email = rp_Email params, Name = rp_Name params\<rparr>
           | ErrEmailExists \<Rightarrow> (Some ErrEmailExists, s1)
           | errors_New msg \<Rightarrow> (Some (errors_New msg), s1)))"

text \<open>
  Sequences of service operations on the in-memory storage, run one after the other from
  the empty store.
\<close>

datatype operation = Register_op RegisterParams | GetByEmail_op string

fun step :: "MemoryUserStorage \<Rightarrow> operation \<Rightarrow> MemoryUserStorage" where
  "step ms (Register_op params) = snd (UserServiceImpl_Register main_usrServ ms params)"
| "step ms (GetByEmail_op email) = snd (UserServiceImpl_GetByEmail main_usrServ ms email)"

definition run :: "operation list \<Rightarrow> MemoryUserStorage" where
  "run ops = foldl step NewMemoryUserStorage ops"

text \<open>
  A service that keeps, next to its own state, the list of the calls made to it: a
  handler that returns the list as it received it has made no call to the service.
\<close>

datatype call = Register_call RegisterParams | GetByEmail_call string

definition recording :: "'s UserService \<Rightarrow> ('s \<times> call list) UserService" where
  "recording svc =
     \<lparr>Register = (\<lambda>(s, calls) params.
        let (err, s1) = Register svc s params
        in (err, (s1, calls @ [Register_call params]))),
      GetByEmail = (\<lambda>(s, calls) email.
        let (res, s1) = GetByEmail svc s email
        in (res, (s1, calls @ [GetByEmail_call email])))\<rparr>"

section \<open>Properties\<close>

lemmas wiring_defs = main_usrServ_def main_joh_def main_usrStor_def NewUserServiceImpl_def
  NewJsonOverHTTP_def NewMemoryUserStorage_def MemoryUserStorage_UserStorer_def
  UserServiceImpl_UserService_def

lemmas memory_defs = wiring_defs UserServiceImpl_Register_def UserServiceImpl_GetByEmail_def
  MemoryUserStorage_Get_def MemoryUserStorage_Save_def

subsection \<open>The service\<close>

text \<open>
  C1. For every storage implementation, every state and every registration params,
  \<open>UserServiceImpl.Register\<close> computes what the algorithm of the specification computes:
  it calls the storage's Get with the params' email; if Get returns no error the result
  is \<open>ErrEmailExists\<close>; if Get returns an error other than \<open>ErrUserNotFound\<close> that error
  is the result; otherwise the result is the one of Save on a User whose Email and Name
  are the params' fields. The state is threaded through Get and Save in that order.
\<close>

theorem Register_follows_algorithm:
  "UserServiceImpl_Register us s params = Register_algorithm (userStorage us) s params"
  by (auto simp: UserServiceImpl_Register_def Register_algorithm_def
      split: prod.splits option.splits error.splits)

theorem Register_follows_algorithm_witness:
  "UserServiceImpl_Register main_usrServ main_usrStor \<lparr>rp_Email = ''a@b'', rp_Name = ''Ann''\<rparr>
     = (None, \<lparr>store = [''a@b'' \<mapsto> \<lparr>Email = ''a@b'', Name = ''Ann''\<rparr>]\<rparr>)"
  using Register_follows_algorithm
    [of main_usrServ main_usrStor "\<lparr>rp_Email = ''a@b'', rp_Name = ''Ann''\<rparr>"]
  by (simp add: Register_algorithm_def wiring_defs MemoryUserStorage_Get_def
      MemoryUserStorage_Save_def)

text \<open>
  C8. For every storage implementation, state and email, \<open>UserServiceImpl.GetByEmail\<close>
  returns exactly what the storage's Get returns on that email: the user, the error and
  the state afterwards. With the in-memory storage that is the result of
  \<open>MemoryUserStorage.Get\<close>, and the storage state is the one before the call.
\<close>

theorem GetByEmail_passthrough:
  "UserServiceImpl_GetByEmail us s email = Get (userStorage us) s email
   \<and> UserServiceImpl_GetByEmail main_usrServ ms email = MemoryUserStorage_Get ms email
   \<and> snd (UserServiceImpl_GetByEmail main_usrServ ms email) = ms"
  by (simp add: UserServiceImpl_GetByEmail_def wiring_defs MemoryUserStorage_Get_def
      split: option.splits)

text \<open>
  C3. Round trip on the in-memory storage: when the params are syntactically valid and
  their email is not stored, Register succeeds, the GetByEmail that follows returns the
  User with exactly the registered Email and Name and no error, and a second GetByEmail
  returns the same.
\<close>

theorem Register_then_GetByEmail:
  "Validate p = None \<Longrightarrow> store ms (rp_Email p) = None \<Longrightarrow>
   (case UserServiceImpl_Register main_usrServ ms p of (err, ms1) \<Rightarrow>
    case UserServiceImpl_GetByEmail main_usrServ ms1 (rp_Email p) of (res1, ms2) \<Rightarrow>
    case UserServiceImpl_GetByEmail main_usrServ ms2 (rp_Email p) of (res2, ms3) \<Rightarrow>
      err = None \<and> res1 = (Some \<lparr>Email = rp_Email p, Name = rp_Name p\<rparr>, None)
      \<and> res2 = res1)"
  by (simp add: memory_defs)

theorem Register_then_GetByEmail_witness:
  "Validate \<lparr>rp_Email = ''a@b'', rp_Name = ''Ann''\<rparr> = None
   \<and> store main_usrStor ''a@b'' = None
   \<and> fst (UserServiceImpl_GetByEmail main_usrServ
        (snd (UserServiceImpl_Register main_usrServ main_usrStor
           \<lparr>rp_Email = ''a@b'', rp_Name = ''Ann''\<rparr>)) ''a@b'')
      = (Some \<lparr>Email = ''a@b'', Name = ''Ann''\<rparr>, None)"
proof -
  let ?p = "\<lparr>rp_Email = ''a@b'', rp_Name = ''Ann''\<rparr>"
  have valid: "Validate ?p = None"
    by (simp add: Validate_def)
  have fresh: "store main_usrStor (rp_Email ?p) = None"
    by (simp add: main_usrStor_def NewMemoryUserStorage_def)
  from Register_then_GetByEmail [OF valid fresh] valid fresh show ?thesis
    by (simp split: prod.splits)
qed

text \<open>
  C4. On the in-memory storage, when a Register succeeds, a second Register with the
  same email fails with \<open>ErrEmailExists\<close>, and the record stored for that email after the
  second attempt is the one of the first registration.
\<close>

theorem Register_twice_conflict:
  "UserServiceImpl_Register main_usrServ ms p1 = (None, ms1) \<Longrightarrow>
   rp_Email p2 = rp_Email p1 \<Longrightarrow>
   (case UserServiceImpl_Register main_usrServ ms1 p2 of (err2, ms2) \<Rightarrow>
      err2 = Some ErrEmailExists
      \<and> store ms2 (rp_Email p1) = Some \<lparr>Email = rp_Email p1, Name = rp_Name p1\<rparr>)"
  by (auto simp add: memory_defs split: option.splits)

theorem Register_twice_conflict_witness:
  "UserServiceImpl_Register main_usrServ main_usrStor \<lparr>rp_Email = ''a@b'', rp_Name = ''Ann''\<rparr>
     = (None, \<lparr>store = [''a@b'' \<mapsto> \<lparr>Email = ''a@b'', Name = ''Ann''\<rparr>]\<rparr>)
   \<and> UserServiceImpl_Register main_usrServ
        \<lparr>store = [''a@b'' \<mapsto> \<lparr>Email = ''a@b'', Name = ''Ann''\<rparr>]\<rparr>
        \<lparr>rp_Email = ''a@b'', rp_Name = ''Bob''\<rparr>
     = (Some ErrEmailExists, \<lparr>store = [''a@b'' \<mapsto> \<lparr>Email = ''a@b'', Name = ''Ann''\<rparr>]\<rparr>)"
proof -
  let ?p1 = "\<lparr>rp_Email = ''a@b'', rp_Name = ''Ann''\<rparr>"
  let ?p2 = "\<lparr>rp_Email = ''a@b'', rp_Name = ''Bob''\<rparr>"
  let ?ms1 = "\<lparr>store = [''a@b'' \<mapsto> \<lparr>Email = ''a@b'', Name = ''Ann''\<rparr>]\<rparr>"
  have first: "UserServiceImpl_Register main_usrServ main_usrStor ?p1 = (None, ?ms1)"
    by (simp add: memory_defs)
  have same: "rp_Email ?p2 = rp_Email ?p1"
    by simp
  from Register_twice_conflict [OF first same] first show ?thesis
    by (simp add: memory_defs split: prod.splits)
qed

subsection \<open>The in-memory storage\<close>

text \<open>
  C10. Frame property of Save: \<open>MemoryUserStorage.Save\<close> changes the store at the key
  that is the user's Email and nowhere else, and for every other email a Get after the
  Save returns what the Get before the Save returned (the same record, or the same
  \<open>ErrUserNotFound\<close>).
\<close>

theorem Save_frame:
  "store (snd (MemoryUserStorage_Save ms user)) = (store ms)(Email user \<mapsto> user)
   \<and> (\<forall>email. email \<noteq> Email user \<longrightarrow>
         fst (MemoryUserStorage_Get (snd (MemoryUserStorage_Save ms user)) email)
           = fst (MemoryUserStorage_Get ms email))"
  by (simp add: MemoryUserStorage_Get_def MemoryUserStorage_Save_def split: option.splits)

theorem Save_frame_witness:
  "''c@d'' \<noteq> Email \<lparr>Email = ''a@b'', Name = ''Ann''\<rparr>
   \<and> fst (MemoryUserStorage_Get
        (snd (MemoryUserStorage_Save
           \<lparr>store = [''c@d'' \<mapsto> \<lparr>Email = ''c@d'', Name = ''Cy''\<rparr>]\<rparr>
           \<lparr>Email = ''a@b'', Name = ''Ann''\<rparr>)) ''c@d'')
      = (Some \<lparr>Email = ''c@d'', Name = ''Cy''\<rparr>, None)"
proof -
  let ?ms = "\<lparr>store = [''c@d'' \<mapsto> \<lparr>Email = ''c@d'', Name = ''Cy''\<rparr>]\<rparr>"
  let ?u = "\<lparr>Email = ''a@b'', Name = ''Ann''\<rparr>"
  have other: "''c@d'' \<noteq> Email ?u"
    by simp
  have before: "fst (MemoryUserStorage_Get ?ms ''c@d'')
      = (Some \<lparr>Email = ''c@d'', Name = ''Cy''\<rparr>, None)"
    by (simp add: MemoryUserStorage_Get_def)
  from Save_frame [of ?ms ?u] other before show ?thesis
    by simp
qed

end
